theory Spec2Isabelle
  imports Main "HOL-Library.AList"
begin

section \<open>The inventory as the tools read it\<close>

text \<open>
  The tools read pynetbox records by attribute. An attribute of a record may be missing
  (\<open>hasattr\<close> is false), present and \<open>None\<close>, or present with a value.
\<close>

datatype 'a attr = Absent | Null | Val 'a

text \<open>
  Records refer to each other (a termination to its cable, the cable back to its
  terminations), so a termination is held by reference. pynetbox compares two records by
  their key (endpoint and id); \<open>tref\<close> is that key, and \<open>term != termination\<close> is
  inequality of keys.
\<close>

type_synonym tref = nat

text \<open>
  A termination record. \<open>device\<close> carries the name of the device (\<open>termination.device.name\<close>),
  \<open>name\<close> is \<open>None\<close> when the record has no attribute \<open>name\<close>, \<open>cable\<close> carries
  the id of the attached cable (\<open>termination.cable.id\<close>).
\<close>

record termination_rec =
  device :: "string attr"
  name :: "string option"
  cable :: "nat option"
  rear_port :: "tref attr"
  front_ports :: "tref list attr"

record cable_rec =
  a_terminations :: "tref list attr"
  b_terminations :: "tref list"

record device_rec =
  dev_id :: nat
  dev_name :: string
  slug :: "string option"
  device_type :: "string option"
  role :: "string option"
  rack :: "string option"
  custom_fields :: "(string \<times> string option) list attr"

text \<open>
  The connection \<open>nb\<close>: the lookups the tools issue, as functions of the inventory.
  \<open>dcim_interfaces_filter d\<close> is \<open>nb.dcim.interfaces.filter(device=d, cabled=True)\<close>,
  \<open>dcim_devices_filter fs\<close> is \<open>nb.dcim.devices.filter(**fs)\<close>; \<open>terminations\<close>
  and \<open>cables\<close> resolve a reference to the record it names.
\<close>

record netbox =
  dcim_devices_get :: "string \<Rightarrow> device_rec option"
  dcim_devices_filter :: "(string \<times> string) list \<Rightarrow> device_rec list"
  dcim_interfaces_get :: "string \<Rightarrow> string \<Rightarrow> tref option"
  dcim_interfaces_filter :: "string \<Rightarrow> tref list"
  terminations :: "tref \<Rightarrow> termination_rec"
  cables :: "nat \<Rightarrow> cable_rec"

text \<open>Python truthiness of the values the tools test.\<close>

fun truthy :: "'a attr \<Rightarrow> bool" where
  "truthy (Val _) = True"
| "truthy _ = False"

fun truthy_list :: "'a list attr \<Rightarrow> bool" where
  "truthy_list (Val xs) = (xs \<noteq> [])"
| "truthy_list _ = False"

fun truthy_str :: "string option \<Rightarrow> bool" where
  "truthy_str (Some s) = (s \<noteq> [])"
| "truthy_str None = False"

fun truthy_int :: "int option \<Rightarrow> bool" where
  "truthy_int (Some n) = (n \<noteq> 0)"
| "truthy_int None = False"

section \<open>Cable graph accessors (tools/cables.py)\<close>

text \<open>
  \<open>_get_connected_terminations\<close>: the argument may be \<open>None\<close>; the members of both
  sides are read only when the cable has a non-empty \<open>a_terminations\<close>
  (\<open>hasattr(cable, 'a_terminations') and cable.a_terminations\<close>). The code reads
  \<open>b_terminations\<close> without a test, so the record holds it as a list.
\<close>

definition get_connected_terminations :: "netbox \<Rightarrow> tref option \<Rightarrow> tref list" where
  "get_connected_terminations nb termination =
     (case termination of
        None \<Rightarrow> []
      | Some t \<Rightarrow>
          (case cable (terminations nb t) of
             None \<Rightarrow> []
           | Some c \<Rightarrow>
               (case a_terminations (cables nb c) of
                  Val (a # as) \<Rightarrow> filter (\<lambda>term. term \<noteq> t) ((a # as) @ b_terminations (cables nb c))
                | _ \<Rightarrow> [])))"

text \<open>
  \<open>_get_next_terminations\<close>: the loop over the connected terminations appends each of
  them, then its rear port, or else its front ports.
\<close>

definition next_step :: "netbox \<Rightarrow> tref list \<Rightarrow> tref \<Rightarrow> tref list" where
  "next_step nb next_terminations term =
     (let next_terminations = next_terminations @ [term] in
      case rear_port (terminations nb term) of
        Val r \<Rightarrow> next_terminations @ [r]
      | _ \<Rightarrow>
         (case front_ports (terminations nb term) of
            Val (fp # fps) \<Rightarrow> next_terminations @ (fp # fps)
          | _ \<Rightarrow> next_terminations))"

definition get_next_terminations :: "netbox \<Rightarrow> tref option \<Rightarrow> tref list" where
  "get_next_terminations nb termination =
     (case termination of
        None \<Rightarrow> []
      | Some t \<Rightarrow>
          (case cable (terminations nb t) of
             None \<Rightarrow> []
           | Some c \<Rightarrow> foldl (next_step nb) [] (get_connected_terminations nb (Some t))))"

text \<open>
  The reading of the specification's sentence on \<open>nextTerminations\<close>, to compare with the
  code: a front port with a paired rear port contributes that rear port, a rear port with
  paired front ports contributes them all.
\<close>

definition is_front_port_with_rear :: "termination_rec \<Rightarrow> bool" where
  "is_front_port_with_rear r = truthy (rear_port r)"

definition is_rear_port_with_fronts :: "termination_rec \<Rightarrow> bool" where
  "is_rear_port_with_fronts r = (\<not> truthy (rear_port r) \<and> truthy_list (front_ports r))"

definition paired_ports_spec :: "netbox \<Rightarrow> tref \<Rightarrow> tref list" where
  "paired_ports_spec nb term =
     (if is_front_port_with_rear (terminations nb term)
      then (case rear_port (terminations nb term) of Val r \<Rightarrow> [r] | _ \<Rightarrow> [])
      else if is_rear_port_with_fronts (terminations nb term)
      then (case front_ports (terminations nb term) of Val fps \<Rightarrow> fps | _ \<Rightarrow> [])
      else [])"

definition next_terminations_spec :: "netbox \<Rightarrow> tref \<Rightarrow> tref list" where
  "next_terminations_spec nb t =
     concat (map (\<lambda>term. term # paired_ports_spec nb term)
                 (get_connected_terminations nb (Some t)))"

text \<open>
  The members of a cable, as the specification lists them: the A-side terminations followed
  by the B-side terminations.
\<close>

definition cable_members :: "netbox \<Rightarrow> nat \<Rightarrow> tref list" where
  "cable_members nb c =
     (case a_terminations (cables nb c) of Val as \<Rightarrow> as | _ \<Rightarrow> []) @ b_terminations (cables nb c)"

section \<open>Device listing (tools/devices.py)\<close>

text \<open>
  The two request-level errors of \<open>get_devices\<close> that the model can reach:
  "NetBox connection not available. Check NETBOX_URL and NETBOX_API_TOKEN environment
  variables." and "Limit must be between 1 and 1000". The inventory is a value here, so a
  lookup does not raise, and reading the attributes of a device record does not either.
\<close>

datatype devices_error = ConnectionNotAvailable | LimitOutOfRange

record device_info =
  info_id :: nat
  info_name :: string
  info_slug :: "string option"
  info_type :: "string option"
  info_role :: "string option"
  info_rack :: "string option"
  info_custom_fields :: "(string \<times> string) list option"

record devices_metadata =
  total_count :: nat
  filters_applied :: "string option \<times> string option \<times> string option"
  limit :: "int option"
  truncated :: bool

datatype devices_result =
    DevicesError devices_error
  | DevicesResponse "device_info list" devices_metadata

text \<open>\<open>xs[:n]\<close>: a negative \<open>n\<close> counts from the end.\<close>

definition py_slice_to :: "'a list \<Rightarrow> int \<Rightarrow> 'a list" where
  "py_slice_to xs n = (if 0 \<le> n then take (nat n) xs else take (nat (int (length xs) + n)) xs)"

definition filter_entry :: "string \<Rightarrow> string option \<Rightarrow> (string \<times> string) list" where
  "filter_entry key v = (if truthy_str v then [(key, the v)] else [])"

definition device_filters :: "string option \<Rightarrow> string option \<Rightarrow> string option \<Rightarrow> (string \<times> string) list" where
  "device_filters site device_role dtype =
     filter_entry ''site'' site @ filter_entry ''role'' device_role @ filter_entry ''device_type'' dtype"

definition non_null_fields :: "(string \<times> string option) list \<Rightarrow> (string \<times> string) list" where
  "non_null_fields cf = List.map_filter (\<lambda>(key, v). map_option (\<lambda>x. (key, x)) v) cf"

definition process_device :: "device_rec \<Rightarrow> device_info" where
  "process_device d =
     \<lparr> info_id = dev_id d, info_name = dev_name d, info_slug = slug d,
       info_type = device_type d, info_role = role d, info_rack = rack d,
       info_custom_fields =
         (if truthy_list (custom_fields d)
          then (case custom_fields d of
                  Val cf \<Rightarrow> (if non_null_fields cf \<noteq> [] then Some (non_null_fields cf) else None)
                | _ \<Rightarrow> None)
          else None) \<rparr>"

definition get_devices ::
  "netbox option \<Rightarrow> string option \<Rightarrow> string option \<Rightarrow> string option \<Rightarrow> int option \<Rightarrow> devices_result" where
  "get_devices nb site device_role dtype lim =
     (case nb of
        None \<Rightarrow> DevicesError ConnectionNotAvailable
      | Some conn \<Rightarrow>
          if truthy_int lim \<and> (the lim < 1 \<or> the lim > 1000) then DevicesError LimitOutOfRange
          else
            let devices = dcim_devices_filter conn (device_filters site device_role dtype);
                devices = (if truthy_int lim then py_slice_to devices (the lim) else devices);
                result_devices = map process_device devices
            in DevicesResponse result_devices
                 \<lparr> total_count = length result_devices,
                   filters_applied = (site, device_role, dtype),
                   limit = lim,
                   truncated = (if truthy_int lim then int (length devices) = the lim else False) \<rparr>)"

text \<open>
  An inventory with one cable whose A side is empty and whose B side holds the
  terminations 1 and 2.
\<close>

definition nb_b_side_only :: netbox where
  "nb_b_side_only =
     \<lparr> dcim_devices_get = (\<lambda>_. None), dcim_devices_filter = (\<lambda>_. []),
       dcim_interfaces_get = (\<lambda>_ _. None), dcim_interfaces_filter = (\<lambda>_. []),
       terminations = (\<lambda>k. \<lparr> device = Val ''sw'', name = Some (if k = 1 then ''e1'' else ''e2''),
                              cable = Some 7, rear_port = Absent, front_ports = Absent \<rparr>),
       cables = (\<lambda>_. \<lparr> a_terminations = Val [], b_terminations = [1, 2] \<rparr>) \<rparr>"


section \<open>Topology tree tracer (tools/cables.py)\<close>

text \<open>
  A node of the tree is the dictionary \<open>_build_tree_node\<close> builds; the single node of the
  no-cable answer has no \<open>depth\<close> entry.
\<close>

datatype tree_node =
  Node (node_device: "string option") (node_interface: "string option") (node_type: string)
       (node_cable_id: "nat option") (node_depth: "int option") (children: "tree_node list")

text \<open>The key \<open>term_id\<close> under which a termination is remembered as visited.\<close>

definition term_id :: "termination_rec \<Rightarrow> string" where
  "term_id r =
     (case device r of Val d \<Rightarrow> d | _ \<Rightarrow> ''unknown'') @ ''_'' @
     (case name r of Some n \<Rightarrow> n | None \<Rightarrow> ''unknown'')"

definition make_node :: "termination_rec \<Rightarrow> int \<Rightarrow> tree_node list \<Rightarrow> tree_node" where
  "make_node r current_depth cs =
     Node (case device r of Val d \<Rightarrow> Some d | _ \<Rightarrow> None)
          (name r)
          (if device r = Absent then ''port'' else ''interface'')
          (cable r)
          (Some current_depth)
          cs"

fun opt_list :: "'a option \<Rightarrow> 'a list" where
  "opt_list None = []"
| "opt_list (Some x) = [x]"

text \<open>
  \<open>_build_tree_node\<close> with the set \<open>visited_terminations\<close> passed in and returned.
  \<open>build_connected\<close> is the loop over \<open>connected_terms\<close>, \<open>build_front_ports\<close> the
  loop over the front ports of a rear port; both return the children they appended.
\<close>

function build_tree_node ::
    "netbox \<Rightarrow> tref \<Rightarrow> string set \<Rightarrow> int \<Rightarrow> int \<Rightarrow> tree_node option \<times> string set"
  and build_connected ::
    "netbox \<Rightarrow> tref list \<Rightarrow> string set \<Rightarrow> int \<Rightarrow> int \<Rightarrow> tree_node list \<times> string set"
  and build_front_ports ::
    "netbox \<Rightarrow> tref list \<Rightarrow> string set \<Rightarrow> int \<Rightarrow> int \<Rightarrow> tree_node list \<times> string set"
where
  "build_tree_node nb t visited current_depth max_depth =
     (if current_depth \<ge> max_depth then (None, visited)
      else if term_id (terminations nb t) \<in> visited then (None, visited)
      else
        (case cable (terminations nb t) of
           None \<Rightarrow>
             (Some (make_node (terminations nb t) current_depth []),
              insert (term_id (terminations nb t)) visited)
         | Some c \<Rightarrow>
             (case build_connected nb (get_connected_terminations nb (Some t))
                     (insert (term_id (terminations nb t)) visited) current_depth max_depth of
                (cs, visited') \<Rightarrow>
                  (Some (make_node (terminations nb t) current_depth cs), visited'))))"
| "build_connected nb [] visited current_depth max_depth = ([], visited)"
| "build_connected nb (term # terms) visited current_depth max_depth =
     (case build_tree_node nb term visited (current_depth + 1) max_depth of
        (child_node, visited1) \<Rightarrow>
          (case (case rear_port (terminations nb term) of
                   Val r \<Rightarrow>
                     (case build_tree_node nb r visited1 (current_depth + 1) max_depth of
                        (rear_node, v) \<Rightarrow> (opt_list rear_node, v))
                 | _ \<Rightarrow>
                     (case front_ports (terminations nb term) of
                        Val (fp # fps) \<Rightarrow>
                          build_front_ports nb (fp # fps) visited1 current_depth max_depth
                      | _ \<Rightarrow> ([], visited1))) of
             (ports, visited2) \<Rightarrow>
               (case build_connected nb terms visited2 current_depth max_depth of
                  (rest, visited3) \<Rightarrow> (opt_list child_node @ ports @ rest, visited3))))"
| "build_front_ports nb [] visited current_depth max_depth = ([], visited)"
| "build_front_ports nb (fp # fps) visited current_depth max_depth =
     (case build_tree_node nb fp visited (current_depth + 1) max_depth of
        (front_node, visited1) \<Rightarrow>
          (case build_front_ports nb fps visited1 current_depth max_depth of
             (rest, visited2) \<Rightarrow> (opt_list front_node @ rest, visited2)))"
  by pat_completeness auto
termination
  by (relation "measures
        [\<lambda>x. case x of
               Inl (nb, t, v, d, m) \<Rightarrow> nat (m - d)
             | Inr (Inl (nb, ts, v, d, m)) \<Rightarrow> nat (m - d - 1)
             | Inr (Inr (nb, ts, v, d, m)) \<Rightarrow> nat (m - d - 1),
         \<lambda>x. case x of
               Inl _ \<Rightarrow> 0
             | Inr (Inl _) \<Rightarrow> 2
             | Inr (Inr _) \<Rightarrow> 1,
         \<lambda>x. case x of
               Inl _ \<Rightarrow> 0
             | Inr (Inl (nb, ts, v, d, m)) \<Rightarrow> length ts
             | Inr (Inr (nb, ts, v, d, m)) \<Rightarrow> length ts]")
     auto


text \<open>
  The identities of the nodes of a tree, root first: \<open>term_id\<close> read back from the
  \<open>device\<close> and \<open>interface\<close> entries of a node.
\<close>

fun node_ids :: "tree_node \<Rightarrow> string list" where
  "node_ids (Node dev ifc ty c dp cs) =
     ((case dev of Some d \<Rightarrow> d | None \<Rightarrow> ''unknown'') @ ''_'' @
      (case ifc of Some n \<Rightarrow> n | None \<Rightarrow> ''unknown'')) # concat (map node_ids cs)"

definition forest_ids :: "tree_node list \<Rightarrow> string list" where
  "forest_ids ns = concat (map node_ids ns)"

text \<open>
  What a traversal step guarantees: the set of visited identities grows, and the nodes it
  produced carry pairwise different identities, none of them visited before, all of them
  visited afterwards.
\<close>

definition fresh_ids :: "string set \<Rightarrow> tree_node list \<Rightarrow> string set \<Rightarrow> bool" where
  "fresh_ids V ns V' =
     (V \<subseteq> V' \<and> distinct (forest_ids ns) \<and> set (forest_ids ns) \<inter> V = {}
      \<and> set (forest_ids ns) \<subseteq> V')"

text \<open>The two summary metrics of \<open>trace_from_interface\<close>.\<close>

fun count_nodes :: "tree_node \<Rightarrow> nat" where
  "count_nodes (Node dev ifc ty c dp cs) = 1 + sum_list (map count_nodes cs)"

fun count_cables :: "tree_node \<Rightarrow> nat set" where
  "count_cables (Node dev ifc ty c dp cs) =
     (case c of Some k \<Rightarrow> (if k \<noteq> 0 then {k} else {}) | None \<Rightarrow> {})
     \<union> \<Union> (set (map count_cables cs))"

text \<open>
  Exceptions the tracers can raise in this model, caught by the \<open>except Exception\<close> of the
  tool: \<open>KeyError k\<close> for a dictionary read of the missing key \<open>k\<close>,
  \<open>AttributeError a\<close> for a read of the attribute \<open>a\<close> on a value without it
  (\<open>node.get\<close> on \<open>None\<close>, \<open>interface.name\<close> on a record without a name).
\<close>

datatype exn = KeyError string | AttributeError string

text \<open>
  Request-level errors of the two tracers: "NetBox connection not available",
  "Interface '..' not found on device '..'", "Source device '..' not found",
  "Target device '..' not found", "Failed to trace from interface: ..",
  "Failed to trace connection: ..".
\<close>

datatype trace_error =
    NetBoxUnavailable
  | InterfaceNotFound string string
  | SourceNotFound string
  | TargetNotFound string
  | FailedToTraceInterface exn
  | FailedToTraceConnection exn

record tree_metadata =
  start_device :: string
  start_interface :: string
  total_nodes :: nat
  total_cables :: nat
  meta_max_depth :: int

datatype tree_result =
    TreeError trace_error
  | TreeMessage string tree_node
  | TreeResult tree_node tree_metadata

definition quoted :: "string \<Rightarrow> string" where
  "quoted s = CHR 0x27 # s @ [CHR 0x27]"

definition trace_from_interface :: "netbox option \<Rightarrow> string \<Rightarrow> string \<Rightarrow> int \<Rightarrow> tree_result" where
  "trace_from_interface nb device_name interface_name max_depth =
     (case nb of
        None \<Rightarrow> TreeError NetBoxUnavailable
      | Some conn \<Rightarrow>
          (case dcim_interfaces_get conn device_name interface_name of
             None \<Rightarrow> TreeError (InterfaceNotFound interface_name device_name)
           | Some interface \<Rightarrow>
               if cable (terminations conn interface) = None
               then TreeMessage
                      (''Interface '' @ quoted interface_name @ '' on device '' @ quoted device_name
                         @ '' has no cable connected'')
                      (Node (Some device_name) (Some interface_name) ''interface'' None None [])
               else
                 (case fst (build_tree_node conn interface {} 0 max_depth) of
                    None \<Rightarrow> TreeError (FailedToTraceInterface (AttributeError ''get''))
                  | Some tree \<Rightarrow>
                      TreeResult tree
                        \<lparr> start_device = device_name, start_interface = interface_name,
                          total_nodes = count_nodes tree,
                          total_cables = card (count_cables tree),
                          meta_max_depth = max_depth \<rparr>)))"


section \<open>Bidirectional path tracer (tools/cables.py)\<close>

record path_hop =
  hop_device :: string
  hop_interface :: string
  hop_cable_id :: nat
  next_device :: string
  next_interface :: "string option"

text \<open>
  The dictionaries \<open>visited\<close> and \<open>path_to_origin\<close> map a device name to a path; they
  are association lists written with \<open>AList.update\<close> and read with \<open>map_of\<close>, so that
  \<open>len\<close> is the length of the list.
\<close>

type_synonym path_dict = "(string \<times> path_hop list) list"

text \<open>A \<open>for\<close> loop whose body may raise: the first exception ends the loop.\<close>

fun for_each :: "('a \<Rightarrow> 's \<Rightarrow> exn + 's) \<Rightarrow> 'a list \<Rightarrow> 's \<Rightarrow> exn + 's" where
  "for_each body [] s = Inr s"
| "for_each body (x # xs) s =
     (case body x s of Inl e \<Rightarrow> Inl e | Inr s' \<Rightarrow> for_each body xs s')"

text \<open>
  The four nested loops of \<open>_expand_frontier\<close>, innermost first. The three inner loops
  change \<open>new_devices\<close> and \<open>path_to_origin\<close>; \<open>visited\<close> changes once for each
  device of the frontier. \<open>cid\<close> is \<open>interface.cable.id\<close>, read after the test
  \<open>if not interface.cable\<close>.
\<close>

definition next_term_body ::
  "netbox \<Rightarrow> path_dict \<Rightarrow> string \<Rightarrow> tref \<Rightarrow> nat \<Rightarrow> tref
     \<Rightarrow> string list \<times> path_dict \<Rightarrow> exn + string list \<times> path_dict" where
  "next_term_body nb visited device_name interface cid next_term st =
     (case st of (new_devices, path_to_origin) \<Rightarrow>
        (case device (terminations nb next_term) of
           Val next_dev \<Rightarrow>
             if map_of visited next_dev = None then
               (case map_of path_to_origin device_name of
                  None \<Rightarrow> Inl (KeyError device_name)
                | Some p \<Rightarrow>
                    (case name (terminations nb interface) of
                       None \<Rightarrow> Inl (AttributeError ''name'')
                     | Some interface_name \<Rightarrow>
                         Inr (new_devices @ [next_dev],
                              AList.update next_dev
                                (p @ [\<lparr> hop_device = device_name, hop_interface = interface_name,
                                        hop_cable_id = cid, next_device = next_dev,
                                        next_interface = name (terminations nb next_term) \<rparr>])
                                path_to_origin)))
             else Inr st
         | _ \<Rightarrow> Inr st))"

definition connected_term_body ::
  "netbox \<Rightarrow> path_dict \<Rightarrow> string \<Rightarrow> tref \<Rightarrow> nat \<Rightarrow> tref
     \<Rightarrow> string list \<times> path_dict \<Rightarrow> exn + string list \<times> path_dict" where
  "connected_term_body nb visited device_name interface cid term st =
     for_each (next_term_body nb visited device_name interface cid)
       (get_next_terminations nb (Some term)) st"

definition interface_body ::
  "netbox \<Rightarrow> path_dict \<Rightarrow> string \<Rightarrow> tref
     \<Rightarrow> string list \<times> path_dict \<Rightarrow> exn + string list \<times> path_dict" where
  "interface_body nb visited device_name interface st =
     (case cable (terminations nb interface) of
        None \<Rightarrow> Inr st
      | Some cid \<Rightarrow>
          for_each (connected_term_body nb visited device_name interface cid)
            (get_connected_terminations nb (Some interface)) st)"

definition device_body ::
  "netbox \<Rightarrow> string \<Rightarrow> string list \<times> path_dict \<times> path_dict
     \<Rightarrow> exn + string list \<times> path_dict \<times> path_dict" where
  "device_body nb device_name st =
     (case st of (new_devices, visited, path_to_origin) \<Rightarrow>
        if map_of visited device_name \<noteq> None then Inr st
        else
          (case dcim_devices_get nb device_name of
             None \<Rightarrow> Inr st
           | Some dev \<Rightarrow>
               (case map_of path_to_origin device_name of
                  None \<Rightarrow> Inl (KeyError device_name)
                | Some p \<Rightarrow>
                    (case for_each (interface_body nb (AList.update device_name p visited) device_name)
                            (dcim_interfaces_filter nb device_name) (new_devices, path_to_origin) of
                       Inl e \<Rightarrow> Inl e
                     | Inr (new_devices', path_to_origin') \<Rightarrow>
                         Inr (new_devices', AList.update device_name p visited, path_to_origin')))))"

definition expand_frontier ::
  "netbox \<Rightarrow> string list \<Rightarrow> path_dict \<Rightarrow> path_dict \<Rightarrow> exn + string list \<times> path_dict \<times> path_dict" where
  "expand_frontier nb devices visited path_to_origin =
     for_each (device_body nb) devices ([], visited, path_to_origin)"

text \<open>
  \<open>_find_intersection\<close> walks the list of new devices and returns the first one that is a
  key of the other side's \<open>visited\<close>; the caller tests the result for truth, and the empty
  name is not true.
\<close>

definition find_intersection :: "string list \<Rightarrow> path_dict \<Rightarrow> string option" where
  "find_intersection new_devices other_visited =
     List.find (\<lambda>d. map_of other_visited d \<noteq> None) new_devices"

record path_result =
  path :: "path_hop list"
  meeting_device :: string
  source_hops :: nat
  target_hops :: nat
  total_hops :: int

definition build_complete_path :: "string \<Rightarrow> path_dict \<Rightarrow> path_dict \<Rightarrow> exn + path_result" where
  "build_complete_path meeting source_visited target_visited =
     (case map_of source_visited meeting of
        None \<Rightarrow> Inl (KeyError meeting)
      | Some source_path \<Rightarrow>
          (case map_of target_visited meeting of
             None \<Rightarrow> Inl (KeyError meeting)
           | Some target_path \<Rightarrow>
               Inr \<lparr> path = source_path @ tl (rev target_path),
                     meeting_device = meeting,
                     source_hops = length source_path,
                     target_hops = length target_path,
                     total_hops = int (length source_path) + int (length target_path) - 1 \<rparr>))"

record search_state =
  source_frontier :: "string list"
  target_frontier :: "string list"
  source_visited :: path_dict
  target_visited :: path_dict
  source_paths :: path_dict
  target_paths :: path_dict

datatype outcome = Found path_result | Exhausted search_state

text \<open>
  The loop \<open>for iteration in range(max_iterations)\<close>, by the number of iterations left.
  It ends with a path, with the state at the moment the search gave up, or with an exception.
\<close>

fun search_loop :: "netbox \<Rightarrow> nat \<Rightarrow> search_state \<Rightarrow> exn + outcome" where
  "search_loop nb 0 st = Inr (Exhausted st)"
| "search_loop nb (Suc n) st =
     (case expand_frontier nb (source_frontier st) (source_visited st) (source_paths st) of
        Inl e \<Rightarrow> Inl e
      | Inr (new_source_devices, sv, sp) \<Rightarrow>
          if truthy_str (find_intersection new_source_devices (target_visited st))
          then map_sum id Found
                 (build_complete_path
                    (the (find_intersection new_source_devices (target_visited st)))
                    sv (target_visited st))
          else
            (case expand_frontier nb (target_frontier st) (target_visited st) (target_paths st) of
               Inl e \<Rightarrow> Inl e
             | Inr (new_target_devices, tv, tp) \<Rightarrow>
                 if truthy_str (find_intersection new_target_devices sv)
                 then map_sum id Found
                        (build_complete_path (the (find_intersection new_target_devices sv)) sv tv)
                 else if new_source_devices = [] \<and> new_target_devices = []
                 then Inr (Exhausted
                        \<lparr> source_frontier = new_source_devices,
                          target_frontier = new_target_devices,
                          source_visited = sv, target_visited = tv,
                          source_paths = sp, target_paths = tp \<rparr>)
                 else search_loop nb n
                        \<lparr> source_frontier = new_source_devices,
                          target_frontier = new_target_devices,
                          source_visited = sv, target_visited = tv,
                          source_paths = sp, target_paths = tp \<rparr>))"

definition initial_state :: "string \<Rightarrow> string \<Rightarrow> search_state" where
  "initial_state source_device target_device =
     \<lparr> source_frontier = [source_device], target_frontier = [target_device],
       source_visited = [], target_visited = [],
       source_paths = [(source_device, [])], target_paths = [(target_device, [])] \<rparr>"

text \<open>
  The answers of \<open>trace_devices_connection\<close>: an error, the answer "No path found between
  '..' and '..' after .. iterations" with the two counts of explored devices, or a path.
\<close>

datatype connection_result =
    ConnectionError trace_error
  | NoPathFound string string int nat nat
  | PathFound path_result

definition trace_devices_connection ::
  "netbox option \<Rightarrow> string \<Rightarrow> string \<Rightarrow> int \<Rightarrow> connection_result" where
  "trace_devices_connection nb source_device target_device max_iterations =
     (case nb of
        None \<Rightarrow> ConnectionError NetBoxUnavailable
      | Some conn \<Rightarrow>
          (case dcim_devices_get conn source_device of
             None \<Rightarrow> ConnectionError (SourceNotFound source_device)
           | Some source_dev \<Rightarrow>
               (case dcim_devices_get conn target_device of
                  None \<Rightarrow> ConnectionError (TargetNotFound target_device)
                | Some target_dev \<Rightarrow>
                    (case search_loop conn (nat max_iterations)
                            (initial_state source_device target_device) of
                       Inl e \<Rightarrow> ConnectionError (FailedToTraceConnection e)
                     | Inr (Found r) \<Rightarrow> PathFound r
                     | Inr (Exhausted st) \<Rightarrow>
                         NoPathFound source_device target_device max_iterations
                           (length (source_visited st)) (length (target_visited st))))))"

section \<open>Example inventories\<close>

definition plain_device :: "string \<Rightarrow> device_rec" where
  "plain_device n =
     \<lparr> dev_id = 0, dev_name = n, slug = None, device_type = None, role = None, rack = None,
       custom_fields = Absent \<rparr>"

text \<open>
  A patch panel between two devices: \<open>X/eth0\<close> (1) is cabled to \<open>PP1/front1\<close> (2) by
  cable 1, \<open>front1\<close> is paired with \<open>PP1/rear1\<close> (3), and \<open>rear1\<close> is cabled to
  \<open>Y/eth0\<close> (4) by cable 2. \<open>X/eth1\<close> (5) has no cable.
\<close>

definition nb_patch_panel :: netbox where
  "nb_patch_panel =
     \<lparr> dcim_devices_get =
         (\<lambda>n. if n = ''X'' \<or> n = ''Y'' \<or> n = ''PP1'' then Some (plain_device n) else None),
       dcim_devices_filter = (\<lambda>_. [plain_device ''X'', plain_device ''PP1'', plain_device ''Y'']),
       dcim_interfaces_get =
         (\<lambda>d n. if d = ''X'' \<and> n = ''eth0'' then Some 1
                else if d = ''Y'' \<and> n = ''eth0'' then Some 4
                else if d = ''X'' \<and> n = ''eth1'' then Some 5 else None),
       dcim_interfaces_filter = (\<lambda>d. if d = ''X'' then [1] else if d = ''Y'' then [4] else []),
       terminations =
         (\<lambda>k. if k = 1 then \<lparr> device = Val ''X'', name = Some ''eth0'', cable = Some 1,
                               rear_port = Absent, front_ports = Absent \<rparr>
              else if k = 2 then \<lparr> device = Val ''PP1'', name = Some ''front1'', cable = Some 1,
                               rear_port = Val 3, front_ports = Absent \<rparr>
              else if k = 3 then \<lparr> device = Val ''PP1'', name = Some ''rear1'', cable = Some 2,
                               rear_port = Absent, front_ports = Val [2] \<rparr>
              else if k = 4 then \<lparr> device = Val ''Y'', name = Some ''eth0'', cable = Some 2,
                               rear_port = Absent, front_ports = Absent \<rparr>
              else \<lparr> device = Val ''X'', name = Some ''eth1'', cable = None,
                     rear_port = Absent, front_ports = Absent \<rparr>),
       cables =
         (\<lambda>c. if c = 1 then \<lparr> a_terminations = Val [1], b_terminations = [2] \<rparr>
              else \<lparr> a_terminations = Val [3], b_terminations = [4] \<rparr>) \<rparr>"

text \<open>A single device \<open>D\<close> without interfaces.\<close>

definition nb_single_device :: netbox where
  "nb_single_device =
     \<lparr> dcim_devices_get = (\<lambda>n. if n = ''D'' then Some (plain_device n) else None),
       dcim_devices_filter = (\<lambda>_. [plain_device ''D'']),
       dcim_interfaces_get = (\<lambda>_ _. None), dcim_interfaces_filter = (\<lambda>_. []),
       terminations = (\<lambda>_. \<lparr> device = Val ''D'', name = Some ''eth0'', cable = None,
                              rear_port = Absent, front_ports = Absent \<rparr>),
       cables = (\<lambda>_. \<lparr> a_terminations = Val [], b_terminations = [] \<rparr>) \<rparr>"

text \<open>A straight cable (id 1) from \<open>X/eth0\<close> (1) to \<open>Y/eth0\<close> (2), no patch panel.\<close>

definition nb_straight_cable :: netbox where
  "nb_straight_cable =
     \<lparr> dcim_devices_get = (\<lambda>n. if n = ''X'' \<or> n = ''Y'' then Some (plain_device n) else None),
       dcim_devices_filter = (\<lambda>_. [plain_device ''X'', plain_device ''Y'']),
       dcim_interfaces_get =
         (\<lambda>d n. if d = ''X'' \<and> n = ''eth0'' then Some 1
                else if d = ''Y'' \<and> n = ''eth0'' then Some 2 else None),
       dcim_interfaces_filter = (\<lambda>d. if d = ''X'' then [1] else if d = ''Y'' then [2] else []),
       terminations =
         (\<lambda>k. if k = 1 then \<lparr> device = Val ''X'', name = Some ''eth0'', cable = Some 1,
                               rear_port = Absent, front_ports = Absent \<rparr>
              else \<lparr> device = Val ''Y'', name = Some ''eth0'', cable = Some 1,
                     rear_port = Absent, front_ports = Absent \<rparr>),
       cables = (\<lambda>_. \<lparr> a_terminations = Val [1], b_terminations = [2] \<rparr>) \<rparr>"

text \<open>
  A breakout cable (id 1): its A side is the front port \<open>PP/front1\<close> (3) of a patch panel,
  its B side the interfaces \<open>A/e0\<close> (1) and \<open>C/e0\<close> (2). \<open>front1\<close> is paired with the
  uncabled rear port \<open>PP/rear1\<close> (4). The patch panel has no interfaces.
\<close>

definition nb_breakout :: netbox where
  "nb_breakout =
     \<lparr> dcim_devices_get =
         (\<lambda>n. if n = ''A'' \<or> n = ''C'' \<or> n = ''PP'' then Some (plain_device n) else None),
       dcim_devices_filter = (\<lambda>_. [plain_device ''A'', plain_device ''C'', plain_device ''PP'']),
       dcim_interfaces_get =
         (\<lambda>d n. if d = ''A'' \<and> n = ''e0'' then Some 1
                else if d = ''C'' \<and> n = ''e0'' then Some 2 else None),
       dcim_interfaces_filter = (\<lambda>d. if d = ''A'' then [1] else if d = ''C'' then [2] else []),
       terminations =
         (\<lambda>k. if k = 1 then \<lparr> device = Val ''A'', name = Some ''e0'', cable = Some 1,
                               rear_port = Absent, front_ports = Absent \<rparr>
              else if k = 2 then \<lparr> device = Val ''C'', name = Some ''e0'', cable = Some 1,
                               rear_port = Absent, front_ports = Absent \<rparr>
              else if k = 3 then \<lparr> device = Val ''PP'', name = Some ''front1'', cable = Some 1,
                               rear_port = Val 4, front_ports = Absent \<rparr>
              else \<lparr> device = Val ''PP'', name = Some ''rear1'', cable = None,
                     rear_port = Absent, front_ports = Val [3] \<rparr>),
       cables = (\<lambda>_. \<lparr> a_terminations = Val [3], b_terminations = [1, 2] \<rparr>) \<rparr>"


section \<open>Invariants of the bidirectional search\<close>

text \<open>
  In the dictionaries of one search direction only the origin of that direction can have
  the empty path, and once the origin is visited its path is the empty one.
\<close>

definition only_origin_empty :: "string \<Rightarrow> path_dict \<Rightarrow> bool" where
  "only_origin_empty origin d = (\<forall>k. map_of d k = Some [] \<longrightarrow> k = origin)"

definition origin_inv :: "string \<Rightarrow> path_dict \<Rightarrow> path_dict \<Rightarrow> bool" where
  "origin_inv origin visited paths =
     (map_of visited origin = Some [] \<and> only_origin_empty origin visited
      \<and> only_origin_empty origin paths)"

definition side_inv :: "string \<Rightarrow> string list \<Rightarrow> path_dict \<Rightarrow> path_dict \<Rightarrow> bool" where
  "side_inv origin frontier visited paths =
     ((frontier = [origin] \<and> visited = [] \<and> paths = [(origin, [])])
      \<or> origin_inv origin visited paths)"

text \<open>
  What holds of a path answer for the origins \<open>a\<close> and \<open>b\<close>: a side contributes no hop
  exactly when the meeting device is its origin.
\<close>

definition meets :: "string \<Rightarrow> string \<Rightarrow> path_result \<Rightarrow> bool" where
  "meets a b r =
     ((source_hops r = 0) = (meeting_device r = a) \<and> (target_hops r = 0) = (meeting_device r = b)
      \<and> total_hops r = int (source_hops r) + int (target_hops r) - 1)"


text \<open>What a finished run of the loop guarantees for the origins \<open>a\<close> and \<open>b\<close>.\<close>

definition outcome_ok :: "string \<Rightarrow> string \<Rightarrow> outcome \<Rightarrow> bool" where
  "outcome_ok a b out =
     (case out of
        Found r \<Rightarrow> meets a b r
      | Exhausted st \<Rightarrow>
          origin_inv a (source_visited st) (source_paths st)
          \<and> origin_inv b (target_visited st) (target_paths st))"

section \<open>Accessor properties\<close>

lemma next_step_paired:
  "next_step nb acc term = acc @ term # paired_ports_spec nb term"
  by (cases "rear_port (terminations nb term)"; cases "front_ports (terminations nb term)")
     (auto simp: next_step_def paired_ports_spec_def is_front_port_with_rear_def
                 is_rear_port_with_fronts_def Let_def split: list.splits)

lemma foldl_next_step:
  "foldl (next_step nb) acc ts = acc @ concat (map (\<lambda>term. term # paired_ports_spec nb term) ts)"
  by (induction ts arbitrary: acc) (simp_all add: next_step_paired)

lemma connected_no_cable:
  "cable (terminations nb t) = None \<Longrightarrow> get_connected_terminations nb (Some t) = []"
  by (simp add: get_connected_terminations_def)

text \<open>
  C6: \<open>_get_next_terminations(t)\<close> is the list of connected terminations, each followed
  by its paired rear port (for a front port) or its paired front ports (for a rear port).
\<close>

theorem get_next_terminations_refines_spec:
  "get_next_terminations nb (Some t) = next_terminations_spec nb t"
  by (cases "cable (terminations nb t)")
     (simp_all add: get_next_terminations_def next_terminations_spec_def foldl_next_step
                    connected_no_cable)

text \<open>
  C5, as the claim states it, fails where the cable's A side is empty: termination 1 shares
  cable 7 with termination 2, and \<open>_get_connected_terminations\<close> returns no termination.
\<close>

theorem get_connected_terminations_b_side_counterexample:
  "cable (terminations nb_b_side_only 1) = Some 7
   \<and> filter (\<lambda>u. u \<noteq> 1) (cable_members nb_b_side_only 7) = [2]
   \<and> get_connected_terminations nb_b_side_only (Some 1) = []"
  by (simp add: nb_b_side_only_def cable_members_def get_connected_terminations_def)

text \<open>
  C5, amended: without a cable, or on a cable whose \<open>a_terminations\<close> is missing or
  empty, the result is empty; otherwise it is the members of both sides, in order, without
  the terminations equal to \<open>t\<close>.
\<close>

theorem get_connected_terminations_members:
  "get_connected_terminations nb (Some t) =
     (case cable (terminations nb t) of
        None \<Rightarrow> []
      | Some c \<Rightarrow>
          if truthy_list (a_terminations (cables nb c))
          then filter (\<lambda>u. u \<noteq> t) (cable_members nb c)
          else [])"
  by (cases "a_terminations (cables nb (the (cable (terminations nb t))))")
     (auto simp: get_connected_terminations_def cable_members_def split: option.splits list.splits)

text \<open>
  C10: with \<open>limit = 0\<close> the range check and the truncation are both skipped: the
  response lists every device the filter query returned and is not marked truncated.
\<close>

theorem get_devices_limit_zero:
  "get_devices (Some conn) site device_role dtype (Some 0) =
     DevicesResponse
       (map process_device (dcim_devices_filter conn (device_filters site device_role dtype)))
       \<lparr> total_count = length (dcim_devices_filter conn (device_filters site device_role dtype)),
         filters_applied = (site, device_role, dtype),
         limit = Some 0,
         truncated = False \<rparr>"
  by (simp add: get_devices_def Let_def)

section \<open>The tree tracer visits an identity once\<close>

lemma node_ids_make_node:
  "node_ids (make_node r d cs) = term_id r # forest_ids cs"
  by (cases "device r"; cases "name r") (simp_all add: make_node_def term_id_def forest_ids_def)

lemma forest_ids_simps [simp]:
  "forest_ids [] = []"
  "forest_ids (n # ns) = node_ids n @ forest_ids ns"
  "forest_ids (xs @ ys) = forest_ids xs @ forest_ids ys"
  by (simp_all add: forest_ids_def)

lemma fresh_ids_nil: "fresh_ids V [] V"
  by (simp add: fresh_ids_def)

lemma fresh_ids_append:
  "fresh_ids V a V1 \<Longrightarrow> fresh_ids V1 b V2 \<Longrightarrow> fresh_ids V (a @ b) V2"
  unfolding fresh_ids_def by auto

lemma fresh_ids_node:
  assumes "i \<notin> V" and "fresh_ids (insert i V) cs V'" and "node_ids n = i # forest_ids cs"
  shows "fresh_ids V [n] V'"
  using assms unfolding fresh_ids_def by auto

lemma build_fresh:
  "fresh_ids V (opt_list (fst (build_tree_node nb t V d m))) (snd (build_tree_node nb t V d m))"
  "fresh_ids V (fst (build_connected nb ts V d m)) (snd (build_connected nb ts V d m))"
  "fresh_ids V (fst (build_front_ports nb fs V d m)) (snd (build_front_ports nb fs V d m))"
proof (induction nb t V d m and nb ts V d m and nb fs V d m
       rule: build_tree_node_build_connected_build_front_ports.induct)
  case (1 nb t visited current_depth max_depth)
  show ?case
  proof (cases "current_depth \<ge> max_depth \<or> term_id (terminations nb t) \<in> visited")
    case True
    then show ?thesis by (auto simp: fresh_ids_nil)
  next
    case False
    show ?thesis
    proof (cases "cable (terminations nb t)")
      case None
      with False show ?thesis
        by (auto intro!: fresh_ids_node[where cs="[]"] simp: node_ids_make_node fresh_ids_nil)
    next
      case (Some c)
      with False 1 have "fresh_ids (insert (term_id (terminations nb t)) visited)
          (fst (build_connected nb (get_connected_terminations nb (Some t))
                 (insert (term_id (terminations nb t)) visited) current_depth max_depth))
          (snd (build_connected nb (get_connected_terminations nb (Some t))
                 (insert (term_id (terminations nb t)) visited) current_depth max_depth))"
        by simp
      with False Some show ?thesis
        by (auto intro!: fresh_ids_node simp: node_ids_make_node split: prod.splits)
    qed
  qed
next
  case (2 nb visited current_depth max_depth)
  show ?case by (simp add: fresh_ids_nil)
next
  case (3 nb "term" terms visited current_depth max_depth)
  obtain cn v1 where a: "build_tree_node nb term visited (current_depth + 1) max_depth = (cn, v1)"
    by force
  define pr where "pr = (case rear_port (terminations nb term) of
            Val r \<Rightarrow>
              (case build_tree_node nb r v1 (current_depth + 1) max_depth of
                 (rear_node, x) \<Rightarrow> (opt_list rear_node, x))
            | _ \<Rightarrow> (case front_ports (terminations nb term) of
                  Val (fp # fps) \<Rightarrow>
                      build_front_ports nb (fp # fps) v1 current_depth max_depth
                  | _ \<Rightarrow> ([], v1)))"
  obtain ports v2 where b: "pr = (ports, v2)"
    by force
  obtain rest v3 where c: "build_connected nb terms v2 current_depth max_depth = (rest, v3)"
    by force
  from 3(1) a have f1: "fresh_ids visited (opt_list cn) v1"
    by simp
  have f2: "fresh_ids v1 ports v2"
  proof (cases "rear_port (terminations nb term)")
    case (Val r)
    from 3(4)[OF a[symmetric] Val] Val b show ?thesis
      by (auto simp: pr_def split: prod.splits)
  next
    case Absent
    show ?thesis
    proof (cases "front_ports (terminations nb term)")
      case (Val xs)
      show ?thesis
      proof (cases xs)
        case Nil
        with Absent Val b show ?thesis by (auto simp: pr_def fresh_ids_nil)
      next
        case (Cons y ys)
        from 3(2)[OF a[symmetric] Absent Val Cons] Absent Val Cons b show ?thesis
          by (simp add: pr_def)
      qed
    qed (use Absent b in \<open>auto simp: pr_def fresh_ids_nil\<close>)
  next
    case Null
    show ?thesis
    proof (cases "front_ports (terminations nb term)")
      case (Val xs)
      show ?thesis
      proof (cases xs)
        case Nil
        with Null Val b show ?thesis by (auto simp: pr_def fresh_ids_nil)
      next
        case (Cons y ys)
        from 3(3)[OF a[symmetric] Null Val Cons] Null Val Cons b show ?thesis
          by (simp add: pr_def)
      qed
    qed (use Null b in \<open>auto simp: pr_def fresh_ids_nil\<close>)
  qed
  from 3(5)[OF a[symmetric] b[symmetric, unfolded pr_def]] c have f3: "fresh_ids v2 rest v3"
    by simp
  have "build_connected nb (term # terms) visited current_depth max_depth
          = (opt_list cn @ ports @ rest, v3)"
    using a b c by (simp add: pr_def)
  then show ?case
    using fresh_ids_append[OF f1 fresh_ids_append[OF f2 f3]] by simp
next
  case (4 nb visited current_depth max_depth)
  show ?case by (simp add: fresh_ids_nil)
next
  case (5 nb fp fps visited current_depth max_depth)
  obtain fn v1 where a: "build_tree_node nb fp visited (current_depth + 1) max_depth = (fn, v1)"
    by force
  obtain rest v2 where b: "build_front_ports nb fps v1 current_depth max_depth = (rest, v2)"
    by force
  from 5(1) a have f1: "fresh_ids visited (opt_list fn) v1"
    by simp
  from 5(2)[OF a[symmetric]] b have f2: "fresh_ids v1 rest v2"
    by simp
  show ?case
    using fresh_ids_append[OF f1 f2] a b by simp
qed


text \<open>
  C4: \<open>_build_tree_node\<close> is a total function (its recursion is bounded by
  \<open>max_depth - current_depth\<close>, whatever the cabling), and in the tree it returns the
  identities are pairwise different and were not visited before: an identity enters the
  visited set before the children are built.
\<close>

theorem build_tree_node_identities_distinct:
  assumes "build_tree_node nb t visited current_depth max_depth = (Some tree, visited')"
  shows "distinct (node_ids tree) \<and> set (node_ids tree) \<inter> visited = {}
         \<and> set (node_ids tree) \<subseteq> visited'"
  using build_fresh(1)[of visited nb t current_depth max_depth] assms
  by (simp add: fresh_ids_def)

lemma build_tree_node_patch_panel:
  "build_tree_node nb_patch_panel 1 {} 0 10 =
     (Some
       (Node (Some ''X'') (Some ''eth0'') ''interface'' (Some 1) (Some 0)
         [Node (Some ''PP1'') (Some ''front1'') ''interface'' (Some 1) (Some 1) [],
          Node (Some ''PP1'') (Some ''rear1'') ''interface'' (Some 2) (Some 1)
            [Node (Some ''Y'') (Some ''eth0'') ''interface'' (Some 2) (Some 2) []]]),
      {''Y_eth0'', ''PP1_rear1'', ''PP1_front1'', ''X_eth0''})"
  by (simp add: nb_patch_panel_def get_connected_terminations_def term_id_def make_node_def)

theorem build_tree_node_identities_distinct_witness:
  "distinct (node_ids
     (Node (Some ''X'') (Some ''eth0'') ''interface'' (Some 1) (Some 0)
         [Node (Some ''PP1'') (Some ''front1'') ''interface'' (Some 1) (Some 1) [],
          Node (Some ''PP1'') (Some ''rear1'') ''interface'' (Some 2) (Some 1)
            [Node (Some ''Y'') (Some ''eth0'') ''interface'' (Some 2) (Some 2) []]]))
   \<and> fst (build_tree_node nb_patch_panel 1 {} 0 10) \<noteq> None"
  using build_tree_node_identities_distinct[OF build_tree_node_patch_panel]
  by (simp only: build_tree_node_patch_panel) simp

text \<open>
  C7: for an interface that exists and has no cable, the answer is the message together
  with the single node without children; it is not an error.
\<close>

theorem trace_from_interface_uncabled:
  assumes "dcim_interfaces_get conn device_name interface_name = Some i"
    and "cable (terminations conn i) = None"
  shows "trace_from_interface (Some conn) device_name interface_name max_depth =
           TreeMessage
             (''Interface '' @ quoted interface_name @ '' on device '' @ quoted device_name
                @ '' has no cable connected'')
             (Node (Some device_name) (Some interface_name) ''interface'' None None [])"
  using assms by (simp add: trace_from_interface_def)

theorem trace_from_interface_uncabled_witness:
  "trace_from_interface (Some nb_patch_panel) ''X'' ''eth1'' 10 =
     TreeMessage
       (''Interface '' @ quoted ''eth1'' @ '' on device '' @ quoted ''X''
          @ '' has no cable connected'')
       (Node (Some ''X'') (Some ''eth1'') ''interface'' None None [])"
  using trace_from_interface_uncabled[of nb_patch_panel "''X''" "''eth1''" 5 10]
  by (simp add: nb_patch_panel_def)

text \<open>
  C9: for an interface that exists and has a cable, \<open>max_depth \<le> 0\<close> makes the tree
  build return no root; counting the nodes of \<open>None\<close> raises, and the tool answers with
  the error "Failed to trace from interface: ..".
\<close>

theorem trace_from_interface_nonpositive_depth:
  assumes "dcim_interfaces_get conn device_name interface_name = Some i"
    and "cable (terminations conn i) = Some c"
    and "max_depth \<le> 0"
  shows "fst (build_tree_node conn i {} 0 max_depth) = None
         \<and> trace_from_interface (Some conn) device_name interface_name max_depth =
             TreeError (FailedToTraceInterface (AttributeError ''get''))"
  using assms by (simp add: trace_from_interface_def)

theorem trace_from_interface_nonpositive_depth_witness:
  "trace_from_interface (Some nb_patch_panel) ''X'' ''eth0'' 0 =
     TreeError (FailedToTraceInterface (AttributeError ''get''))"
  using trace_from_interface_nonpositive_depth[of nb_patch_panel "''X''" "''eth0''" 1 1 0]
  by (simp add: nb_patch_panel_def)

section \<open>The bidirectional search: what it answers\<close>

lemma for_each_invariant:
  assumes "for_each body xs s = Inr s'" and "I s"
    and "\<And>x s s'. I s \<Longrightarrow> body x s = Inr s' \<Longrightarrow> I s'"
  shows "I s'"
  using assms(1,2)
proof (induction xs arbitrary: s)
  case Nil
  then show ?case by simp
next
  case (Cons x xs)
  from Cons.prems(1) obtain s1 where b: "body x s = Inr s1" and r: "for_each body xs s1 = Inr s'"
    by (cases "body x s") simp_all
  from assms(3)[OF Cons.prems(2) b] have "I s1" .
  from Cons.IH[OF r this] show ?case .
qed

lemma only_origin_empty_update:
  "only_origin_empty origin d \<Longrightarrow> p \<noteq> [] \<Longrightarrow> only_origin_empty origin (AList.update k p d)"
  by (simp add: only_origin_empty_def update_conv')

lemma next_term_body_paths:
  assumes "next_term_body nb v dn i cid nt st = Inr st'" and "only_origin_empty origin (snd st)"
  shows "only_origin_empty origin (snd st')"
  using assms
  by (cases st)
     (auto simp: next_term_body_def only_origin_empty_update
           split: attr.splits if_splits option.splits)

lemma connected_term_body_paths:
  assumes "connected_term_body nb v dn i cid t st = Inr st'" and "only_origin_empty origin (snd st)"
  shows "only_origin_empty origin (snd st')"
  using assms(1)[unfolded connected_term_body_def] assms(2)
  by (rule for_each_invariant) (rule next_term_body_paths)

lemma interface_body_paths:
  assumes "interface_body nb v dn i st = Inr st'" and "only_origin_empty origin (snd st)"
  shows "only_origin_empty origin (snd st')"
proof (cases "cable (terminations nb i)")
  case None
  with assms show ?thesis by (simp add: interface_body_def)
next
  case (Some cid)
  with assms(1) have "for_each (connected_term_body nb v dn i cid)
      (get_connected_terminations nb (Some i)) st = Inr st'"
    by (simp add: interface_body_def)
  from this assms(2) show ?thesis
    by (rule for_each_invariant) (rule connected_term_body_paths)
qed

lemma interfaces_paths:
  assumes "for_each (interface_body nb v dn) is st = Inr st'" and "only_origin_empty origin (snd st)"
  shows "only_origin_empty origin (snd st')"
  using assms by (rule for_each_invariant) (rule interface_body_paths)

lemma device_body_inv:
  assumes "device_body nb dn st = Inr st'" and "origin_inv origin (fst (snd st)) (snd (snd st))"
  shows "origin_inv origin (fst (snd st')) (snd (snd st'))"
proof -
  obtain nd v p where st: "st = (nd, v, p)" by (cases st) auto
  show ?thesis
  proof (cases "map_of v dn \<noteq> None \<or> dcim_devices_get nb dn = None")
    case True
    with assms st show ?thesis by (auto simp: device_body_def split: option.splits)
  next
    case False
    with assms(1) st obtain q nd' p' where
      q: "map_of p dn = Some q" and
      fe: "for_each (interface_body nb (AList.update dn q v) dn) (dcim_interfaces_filter nb dn) (nd, p)
             = Inr (nd', p')" and
      st': "st' = (nd', AList.update dn q v, p')"
      by (auto simp: device_body_def split: option.splits sum.splits)
    from assms(2) st have inv: "map_of v origin = Some []" "only_origin_empty origin v"
      "only_origin_empty origin p"
      by (simp_all add: origin_inv_def)
    from False inv(1) have ne: "dn \<noteq> origin" by auto
    with q inv(3) have qne: "q \<noteq> []" by (auto simp: only_origin_empty_def)
    from interfaces_paths[OF fe] inv(3) have "only_origin_empty origin p'" by simp
    with inv ne qne st' show ?thesis
      by (simp add: origin_inv_def only_origin_empty_update update_conv')
  qed
qed

lemma device_body_first:
  assumes "device_body nb origin ([], [], [(origin, [])]) = Inr st'"
    and "dcim_devices_get nb origin \<noteq> None"
  shows "origin_inv origin (fst (snd st')) (snd (snd st'))"
proof -
  from assms obtain nd' p' where
    fe: "for_each (interface_body nb [(origin, [])] origin) (dcim_interfaces_filter nb origin)
           ([], [(origin, [])]) = Inr (nd', p')" and
    st': "st' = (nd', [(origin, [])], p')"
    by (auto simp: device_body_def split: option.splits sum.splits)
  have "only_origin_empty origin (snd ([] :: string list, [(origin, [] :: path_hop list)]))"
    by (simp add: only_origin_empty_def)
  with interfaces_paths[OF fe] have "only_origin_empty origin p'" by simp
  with st' show ?thesis
    by (simp add: origin_inv_def only_origin_empty_def)
qed

lemma expand_frontier_inv:
  assumes "expand_frontier nb fr v p = Inr (nd, v', p')"
    and "side_inv origin fr v p" and "dcim_devices_get nb origin \<noteq> None"
  shows "origin_inv origin v' p'"
proof (cases "origin_inv origin v p")
  case True
  have "origin_inv origin (fst (snd (nd, v', p'))) (snd (snd (nd, v', p')))"
    using assms(1)[unfolded expand_frontier_def]
  proof (rule for_each_invariant)
    show "origin_inv origin (fst (snd ([], v, p))) (snd (snd ([], v, p)))"
      using True by simp
  qed (rule device_body_inv)
  then show ?thesis by simp
next
  case False
  with assms(2) have "fr = [origin]" "v = []" "p = [(origin, [])]"
    by (auto simp: side_inv_def)
  with assms(1) have "device_body nb origin ([], [], [(origin, [])]) = Inr (nd, v', p')"
    by (auto simp: expand_frontier_def split: sum.splits)
  from device_body_first[OF this assms(3)] show ?thesis by simp
qed

lemma build_complete_path_Inr:
  assumes "build_complete_path m sv tv = Inr r"
  obtains p q where "map_of sv m = Some p" and "map_of tv m = Some q"
    and "meeting_device r = m" and "source_hops r = length p" and "target_hops r = length q"
    and "total_hops r = int (length p) + int (length q) - 1"
proof (cases "map_of sv m")
  case None
  with assms show ?thesis by (simp add: build_complete_path_def)
next
  case p: (Some p)
  show ?thesis
  proof (cases "map_of tv m")
    case None
    with assms p show ?thesis by (simp add: build_complete_path_def)
  next
    case q: (Some q)
    from assms p q have "r = \<lparr> path = p @ tl (rev q), meeting_device = m, source_hops = length p,
              target_hops = length q, total_hops = int (length p) + int (length q) - 1 \<rparr>"
      by (simp add: build_complete_path_def)
    then have "meeting_device r = m" "source_hops r = length p" "target_hops r = length q"
      "total_hops r = int (length p) + int (length q) - 1"
      by simp_all
    with p q that show ?thesis by blast
  qed
qed

lemma origin_inv_empty_path:
  assumes "origin_inv a v ps" and "map_of v m = Some p"
  shows "(p = []) = (m = a)"
proof
  assume "p = []"
  with assms(2) have "map_of v m = Some []" by simp
  with assms(1) show "m = a" unfolding origin_inv_def only_origin_empty_def by blast
next
  assume "m = a"
  with assms show "p = []" unfolding origin_inv_def by simp
qed

lemma build_complete_path_meets:
  assumes "build_complete_path m sv tv = Inr r"
    and "origin_inv a sv sp" and "side_inv b tf tv tp"
  shows "meets a b r"
proof -
  from assms(1) obtain p q where
    p: "map_of sv m = Some p" and q: "map_of tv m = Some q" and
    r: "meeting_device r = m" "source_hops r = length p" "target_hops r = length q"
       "total_hops r = int (length p) + int (length q) - 1"
    by (rule build_complete_path_Inr)
  from q have "tv \<noteq> []" by auto
  with assms(3) have tinv: "origin_inv b tv tp" unfolding side_inv_def by blast
  have "(p = []) = (m = a)" using assms(2) p by (rule origin_inv_empty_path)
  moreover have "(q = []) = (m = b)" using tinv q by (rule origin_inv_empty_path)
  ultimately show ?thesis using r by (simp add: meets_def)
qed


lemma map_sum_Found:
  "map_sum id Found x = Inr out \<Longrightarrow> \<exists>r. x = Inr r \<and> out = Found r"
  by (cases x) simp_all

lemma search_loop_iteration:
  assumes run: "search_loop nb (Suc n) st = Inr out"
    and s: "side_inv a (source_frontier st) (source_visited st) (source_paths st)"
    and t: "side_inv b (target_frontier st) (target_visited st) (target_paths st)"
    and a: "dcim_devices_get nb a \<noteq> None" and b: "dcim_devices_get nb b \<noteq> None"
  shows "outcome_ok a b out
         \<or> (\<exists>st1. search_loop nb n st1 = Inr out
                \<and> origin_inv a (source_visited st1) (source_paths st1)
                \<and> origin_inv b (target_visited st1) (target_paths st1))"
proof -
  from run obtain nsd sv sp where
    es: "expand_frontier nb (source_frontier st) (source_visited st) (source_paths st)
           = Inr (nsd, sv, sp)"
    by (cases "expand_frontier nb (source_frontier st) (source_visited st) (source_paths st)")
       auto
  have si: "origin_inv a sv sp"
    using es s a by (rule expand_frontier_inv)
  show ?thesis
  proof (cases "truthy_str (find_intersection nsd (target_visited st))")
    case True
    with run es have "map_sum id Found
        (build_complete_path (the (find_intersection nsd (target_visited st))) sv (target_visited st))
        = Inr out"
      by simp
    then obtain r where
      bp: "build_complete_path (the (find_intersection nsd (target_visited st))) sv (target_visited st)
             = Inr r" and out: "out = Found r"
      using map_sum_Found by blast
    from bp si t have "meets a b r" by (rule build_complete_path_meets)
    with out show ?thesis by (simp add: outcome_ok_def)
  next
    case nomeet: False
    with run es obtain ntd tv tp where
      et: "expand_frontier nb (target_frontier st) (target_visited st) (target_paths st)
             = Inr (ntd, tv, tp)"
      by (cases "expand_frontier nb (target_frontier st) (target_visited st) (target_paths st)")
         auto
    have ti: "origin_inv b tv tp"
      using et t b by (rule expand_frontier_inv)
    then have ts: "side_inv b ntd tv tp" by (simp add: side_inv_def)
    show ?thesis
    proof (cases "truthy_str (find_intersection ntd sv)")
      case True
      with run es et nomeet have "map_sum id Found
          (build_complete_path (the (find_intersection ntd sv)) sv tv) = Inr out"
        by simp
      then obtain r where
        bp: "build_complete_path (the (find_intersection ntd sv)) sv tv = Inr r"
        and out: "out = Found r"
        using map_sum_Found by blast
      from bp si ts have "meets a b r" by (rule build_complete_path_meets)
      with out show ?thesis by (simp add: outcome_ok_def)
    next
      case False
      define st1 where "st1 = \<lparr> source_frontier = nsd, target_frontier = ntd,
          source_visited = sv, target_visited = tv, source_paths = sp, target_paths = tp \<rparr>"
      have inv1: "origin_inv a (source_visited st1) (source_paths st1)"
        "origin_inv b (target_visited st1) (target_paths st1)"
        using si ti by (simp_all add: st1_def)
      show ?thesis
      proof (cases "nsd = [] \<and> ntd = []")
        case True
        with run es et nomeet False have "out = Exhausted st1"
          by (simp add: st1_def)
        with inv1 show ?thesis by (simp add: outcome_ok_def)
      next
        case False
        with run es et nomeet \<open>\<not> truthy_str (find_intersection ntd sv)\<close>
        have "search_loop nb n st1 = Inr out"
          by (auto simp: st1_def)
        with inv1 show ?thesis by blast
      qed
    qed
  qed
qed

lemma search_loop_outcome:
  assumes a: "dcim_devices_get nb a \<noteq> None" and b: "dcim_devices_get nb b \<noteq> None"
  shows "search_loop nb n st = Inr out
    \<Longrightarrow> origin_inv a (source_visited st) (source_paths st)
    \<Longrightarrow> origin_inv b (target_visited st) (target_paths st)
    \<Longrightarrow> outcome_ok a b out"
proof (induction n arbitrary: st)
  case 0
  then show ?case by (auto simp: outcome_ok_def)
next
  case (Suc n)
  from Suc.prems(2,3) have
    "side_inv a (source_frontier st) (source_visited st) (source_paths st)"
    "side_inv b (target_frontier st) (target_visited st) (target_paths st)"
    by (simp_all add: side_inv_def)
  from search_loop_iteration[OF Suc.prems(1) this a b] Suc.IH show ?case
    by blast
qed

lemma search_loop_from_start:
  assumes a: "dcim_devices_get nb a \<noteq> None" and b: "dcim_devices_get nb b \<noteq> None"
    and run: "search_loop nb (Suc n) (initial_state a b) = Inr out"
  shows "outcome_ok a b out"
proof -
  have "side_inv a (source_frontier (initial_state a b)) (source_visited (initial_state a b))
          (source_paths (initial_state a b))"
    "side_inv b (target_frontier (initial_state a b)) (target_visited (initial_state a b))
          (target_paths (initial_state a b))"
    by (simp_all add: side_inv_def initial_state_def)
  from search_loop_iteration[OF run this a b] search_loop_outcome[OF a b] show ?thesis
    by blast
qed

lemma origin_inv_length: "origin_inv a v p \<Longrightarrow> 1 \<le> length v"
  by (cases v) (simp_all add: origin_inv_def)


lemma trace_search_loop:
  assumes "dcim_devices_get conn a \<noteq> None" and "dcim_devices_get conn b \<noteq> None"
  shows "trace_devices_connection (Some conn) a b n =
           (case search_loop conn (nat n) (initial_state a b) of
              Inl e \<Rightarrow> ConnectionError (FailedToTraceConnection e)
            | Inr (Found r) \<Rightarrow> PathFound r
            | Inr (Exhausted st) \<Rightarrow>
                NoPathFound a b n (length (source_visited st)) (length (target_visited st)))"
  using assms by (auto simp: trace_devices_connection_def)

lemma trace_outcome:
  assumes a: "dcim_devices_get conn a \<noteq> None" and b: "dcim_devices_get conn b \<noteq> None"
    and n: "1 \<le> n"
    and run: "search_loop conn (nat n) (initial_state a b) = Inr out"
  shows "outcome_ok a b out"
proof -
  from n obtain k where "nat n = Suc k"
    by (cases "nat n") auto
  with run have "search_loop conn (Suc k) (initial_state a b) = Inr out" by simp
  with a b show ?thesis by (rule search_loop_from_start)
qed

lemmas trace_eval =
  trace_devices_connection_def initial_state_def expand_frontier_def device_body_def
  interface_body_def connected_term_body_def next_term_body_def get_next_terminations_def
  get_connected_terminations_def next_step_def find_intersection_def build_complete_path_def
  plain_device_def Let_def eval_nat_numeral

text \<open>
  C1, as the claim states it, fails: for the single device \<open>D\<close>, which resolves, the
  answer is the error "No path found", with one device explored on each side.
\<close>

theorem trace_same_device_counterexample:
  "dcim_devices_get nb_single_device ''D'' \<noteq> None
   \<and> trace_devices_connection (Some nb_single_device) ''D'' ''D'' 10
       = NoPathFound ''D'' ''D'' 10 1 1"
  by (simp add: trace_eval nb_single_device_def)

text \<open>
  C1, amended: for a device that resolves, a path answer of
  \<open>trace_devices_connection(D, D)\<close> never has \<open>total_hops = 0\<close>; and when the device
  has no cabled interface and at least one iteration is allowed, the answer is the error
  "No path found" with one device explored on each side.
\<close>

theorem trace_same_device:
  assumes d: "dcim_devices_get conn d \<noteq> None"
  shows "(trace_devices_connection (Some conn) d d n = PathFound r \<longrightarrow> total_hops r \<noteq> 0)
         \<and> (dcim_interfaces_filter conn d = [] \<and> 1 \<le> n \<longrightarrow>
              trace_devices_connection (Some conn) d d n = NoPathFound d d n 1 1)"
proof (intro conjI impI)
  assume found: "trace_devices_connection (Some conn) d d n = PathFound r"
  then have run: "search_loop conn (nat n) (initial_state d d) = Inr (Found r)"
    unfolding trace_search_loop[OF d d]
    by (auto split: sum.splits outcome.splits)
  have "1 \<le> n"
  proof (rule ccontr)
    assume "\<not> 1 \<le> n"
    then have "nat n = 0" by simp
    with run show False by simp
  qed
  from trace_outcome[OF d d this run] have "meets d d r"
    by (simp add: outcome_ok_def)
  then show "total_hops r \<noteq> 0"
    unfolding meets_def by auto
next
  assume "dcim_interfaces_filter conn d = [] \<and> 1 \<le> n"
  then have i: "dcim_interfaces_filter conn d = []" and "1 \<le> n" by simp_all
  then obtain k where k: "nat n = Suc k"
    by (cases "nat n") auto
  from d obtain dev where dev: "dcim_devices_get conn d = Some dev" by auto
  have e: "expand_frontier conn [d] [] [(d, [])] = Inr ([], [(d, [])], [(d, [])])"
    by (simp add: expand_frontier_def device_body_def dev i)
  have "search_loop conn (Suc k) (initial_state d d) =
          Inr (Exhausted \<lparr> source_frontier = [], target_frontier = [],
                 source_visited = [(d, [])], target_visited = [(d, [])],
                 source_paths = [(d, [])], target_paths = [(d, [])] \<rparr>)"
    by (simp add: initial_state_def e find_intersection_def)
  then show "trace_devices_connection (Some conn) d d n = NoPathFound d d n 1 1"
    unfolding trace_search_loop[OF d d] k by simp
qed

lemma trace_breakout_same_device:
  "trace_devices_connection (Some nb_breakout) ''A'' ''A'' 10 =
     PathFound
       \<lparr> path =
           [\<lparr> hop_device = ''A'', hop_interface = ''e0'', hop_cable_id = 1,
               next_device = ''C'', next_interface = Some ''e0'' \<rparr>,
            \<lparr> hop_device = ''C'', hop_interface = ''e0'', hop_cable_id = 1,
               next_device = ''PP'', next_interface = Some ''rear1'' \<rparr>,
            \<lparr> hop_device = ''A'', hop_interface = ''e0'', hop_cable_id = 1,
               next_device = ''C'', next_interface = Some ''e0'' \<rparr>],
         meeting_device = ''PP'', source_hops = 2, target_hops = 2, total_hops = 3 \<rparr>"
  by (simp add: trace_eval nb_breakout_def)

theorem trace_same_device_witness:
  "(\<exists>r. trace_devices_connection (Some nb_breakout) ''A'' ''A'' 10 = PathFound r
        \<and> total_hops r \<noteq> 0)
   \<and> dcim_interfaces_filter nb_single_device ''D'' = []
   \<and> trace_devices_connection (Some nb_single_device) ''D'' ''D'' 3 = NoPathFound ''D'' ''D'' 3 1 1"
proof -
  have a: "dcim_devices_get nb_breakout ''A'' \<noteq> None"
    by (simp add: nb_breakout_def)
  have d: "dcim_devices_get nb_single_device ''D'' \<noteq> None"
    by (simp add: nb_single_device_def)
  have i: "dcim_interfaces_filter nb_single_device ''D'' = []"
    by (simp add: nb_single_device_def)
  from trace_same_device[OF a, of 10] trace_breakout_same_device
  have "\<exists>r. trace_devices_connection (Some nb_breakout) ''A'' ''A'' 10 = PathFound r
        \<and> total_hops r \<noteq> 0"
    by blast
  moreover from trace_same_device[OF d, of 3] i
  have "trace_devices_connection (Some nb_single_device) ''D'' ''D'' 3 = NoPathFound ''D'' ''D'' 3 1 1"
    by simp
  ultimately show ?thesis using i by blast
qed

text \<open>
  C2: on the straight cable from \<open>X/eth0\<close> to \<open>Y/eth0\<close> the tool answers "No path
  found" with one device explored on each side, not a path of one hop: from the far end of
  the cable, \<open>_get_next_terminations\<close> leads back over the same cable to \<open>X\<close>, which is
  visited already, so \<open>Y\<close> is never discovered.
\<close>

theorem trace_straight_cable_no_path:
  "get_next_terminations nb_straight_cable (Some 2) = [1]
   \<and> trace_devices_connection (Some nb_straight_cable) ''X'' ''Y'' 10
       = NoPathFound ''X'' ''Y'' 10 1 1"
  by (simp add: trace_eval nb_straight_cable_def)

text \<open>
  C3: on the breakout cable the search from \<open>A\<close> to \<open>PP\<close> finds a path with
  \<open>total_hops = 1\<close>, and the search from \<open>PP\<close> to \<open>A\<close> ends in the error "Failed to
  trace connection": the intersection \<open>PP\<close> is found among the devices newly discovered
  from \<open>A\<close>, which are not keys of that side's \<open>visited\<close> yet.
\<close>

theorem trace_breakout_not_symmetric:
  "trace_devices_connection (Some nb_breakout) ''A'' ''PP'' 10 =
     PathFound
       \<lparr> path =
           [\<lparr> hop_device = ''A'', hop_interface = ''e0'', hop_cable_id = 1,
               next_device = ''C'', next_interface = Some ''e0'' \<rparr>,
            \<lparr> hop_device = ''C'', hop_interface = ''e0'', hop_cable_id = 1,
               next_device = ''PP'', next_interface = Some ''rear1'' \<rparr>],
         meeting_device = ''PP'', source_hops = 2, target_hops = 0, total_hops = 1 \<rparr>
   \<and> trace_devices_connection (Some nb_breakout) ''PP'' ''A'' 10 =
       ConnectionError (FailedToTraceConnection (KeyError ''PP''))"
  by (simp add: trace_eval nb_breakout_def)

text \<open>
  C8, as the claim states it, fails when no iteration is allowed: both devices exist, and
  the answer carries the counts 0 and 0.
\<close>

theorem no_path_counts_counterexample:
  "dcim_devices_get nb_straight_cable ''X'' \<noteq> None
   \<and> dcim_devices_get nb_straight_cable ''Y'' \<noteq> None
   \<and> trace_devices_connection (Some nb_straight_cable) ''X'' ''Y'' 0
       = NoPathFound ''X'' ''Y'' 0 0 0"
  by (simp add: trace_eval nb_straight_cable_def)

text \<open>
  C8, amended: for two devices that exist and \<open>max_iterations \<ge> 1\<close>, an answer "No path
  found" carries two counts that are both at least 1; with \<open>max_iterations \<le> 0\<close> the
  answer is "No path found" with both counts 0.
\<close>

theorem no_path_counts:
  assumes a: "dcim_devices_get conn a \<noteq> None" and b: "dcim_devices_get conn b \<noteq> None"
  shows "(1 \<le> n \<and> trace_devices_connection (Some conn) a b n = NoPathFound a' b' n' s t
            \<longrightarrow> 1 \<le> s \<and> 1 \<le> t)
         \<and> (n \<le> 0 \<longrightarrow> trace_devices_connection (Some conn) a b n = NoPathFound a b n 0 0)"
proof (rule conjI; rule impI)
  assume "1 \<le> n \<and> trace_devices_connection (Some conn) a b n = NoPathFound a' b' n' s t"
  then have n: "1 \<le> n"
    and res: "trace_devices_connection (Some conn) a b n = NoPathFound a' b' n' s t"
    by simp_all
  from res obtain st where
    run: "search_loop conn (nat n) (initial_state a b) = Inr (Exhausted st)"
    and s: "s = length (source_visited st)" and t: "t = length (target_visited st)"
    unfolding trace_search_loop[OF a b]
    by (auto split: sum.splits outcome.splits)
  from trace_outcome[OF a b n run] have
    "origin_inv a (source_visited st) (source_paths st)"
    "origin_inv b (target_visited st) (target_paths st)"
    by (simp_all add: outcome_ok_def)
  then have "1 \<le> length (source_visited st)" "1 \<le> length (target_visited st)"
    by (auto dest: origin_inv_length)
  then show "1 \<le> s \<and> 1 \<le> t"
    using s t by simp
next
  assume "n \<le> 0"
  then have "nat n = 0" by simp
  then show "trace_devices_connection (Some conn) a b n = NoPathFound a b n 0 0"
    unfolding trace_search_loop[OF a b] by (simp add: initial_state_def)
qed

lemma trace_patch_panel_no_path:
  "trace_devices_connection (Some nb_patch_panel) ''X'' ''Y'' 10 = NoPathFound ''X'' ''Y'' 10 1 1"
  by (simp add: trace_eval nb_patch_panel_def)

theorem no_path_counts_witness:
  "(\<exists>s t. trace_devices_connection (Some nb_patch_panel) ''X'' ''Y'' 10
            = NoPathFound ''X'' ''Y'' 10 s t \<and> 1 \<le> s \<and> 1 \<le> t)
   \<and> trace_devices_connection (Some nb_patch_panel) ''X'' ''Y'' (- 1)
       = NoPathFound ''X'' ''Y'' (- 1) 0 0"
proof -
  have x: "dcim_devices_get nb_patch_panel ''X'' \<noteq> None"
    and y: "dcim_devices_get nb_patch_panel ''Y'' \<noteq> None"
    by (simp_all add: nb_patch_panel_def)
  from no_path_counts[OF x y, of "- 1"]
  have "trace_devices_connection (Some nb_patch_panel) ''X'' ''Y'' (- 1)
          = NoPathFound ''X'' ''Y'' (- 1) 0 0"
    by simp
  moreover from no_path_counts[OF x y, of 10 "''X''" "''Y''" 10 1 1] trace_patch_panel_no_path
  have "\<exists>s t. trace_devices_connection (Some nb_patch_panel) ''X'' ''Y'' 10
            = NoPathFound ''X'' ''Y'' 10 s t \<and> 1 \<le> s \<and> 1 \<le> t"
    by simp
  ultimately show ?thesis by simp
qed

end
